theory Spec2Isabelle
  imports Main "HOL-Library.Log_Nat"
begin

section \<open>Exceptions\<close>

text \<open>
  The exception classes the modelled functions raise. A function that can raise returns
  \<open>exn + 'a\<close>, with \<open>Inl\<close> for the exception. \<open>DateValidationError\<close> carries the rule
  that was violated (the source carries a message and the offending dates).
\<close>

datatype date_rule =
    StartNotDate | EndNotDate | StartAfterEnd | StartInFuture | EndInFuture
  | RangeTooLong | StartTooOld | Wrapped

datatype exn =
    ValueError | TypeError | AttributeError | KeyError | OverflowError | ZeroDivisionError
  | IOError | RuntimeError
  | ValidationError | DateValidationError date_rule | TaskManagerError
  | NetworkError | AuthenticationError | APIError nat
  | AsanaAPIError | AsanaRateLimitError

section \<open>config\_schema.py: the field catalog\<close>

text \<open>
  \<open>AVAILABLE_TASK_FIELDS\<close> is a dict from field key to display label; only its keys are
  consulted by the validation below, so the model keeps the keys, in the source's order.
\<close>

definition AVAILABLE_TASK_FIELDS :: "string list" where
  "AVAILABLE_TASK_FIELDS =
     [''name'', ''created_at'', ''modified_at'', ''completed'', ''assignee'', ''due_date'',
      ''notes'', ''tags'', ''projects'', ''parent'', ''subtasks'', ''dependencies'',
      ''custom_fields'']"

definition REQUIRED_FIELDS :: "string list" where
  "REQUIRED_FIELDS = [''name'', ''created_at'']"

definition DEFAULT_SELECTED_FIELDS :: "string list" where
  "DEFAULT_SELECTED_FIELDS = [''name'', ''created_at'', ''assignee'', ''completed'', ''due_date'']"

text \<open>One round of the loop over \<open>REQUIRED_FIELDS\<close>: \<open>insert(0, required_field)\<close> when absent.\<close>

definition insert_required :: "string list \<Rightarrow> string \<Rightarrow> string list" where
  "insert_required validated_fields required_field =
     (if required_field \<notin> set validated_fields then required_field # validated_fields
      else validated_fields)"

definition validate_selected_fields :: "string list \<Rightarrow> string list" where
  "validate_selected_fields selected_fields =
     (if selected_fields = [] then DEFAULT_SELECTED_FIELDS
      else filter (\<lambda>field. field \<in> set AVAILABLE_TASK_FIELDS)
             (foldl insert_required selected_fields REQUIRED_FIELDS))"

section \<open>task\_manager.py: date range validation\<close>

text \<open>
  The arguments of \<open>validate_date_range\<close> are untyped in Python. A \<open>date\<close> is its
  proleptic ordinal (a day number); a \<open>datetime\<close> is a day number and a time within the
  day, and is an instance of \<open>date\<close> too; anything else is \<open>PyOther\<close>.
  Ordering a \<open>datetime\<close> against a plain \<open>date\<close> raises \<open>TypeError\<close> in Python.
  \<open>date.today()\<close> is the parameter \<open>today\<close>.
\<close>

datatype pyobj = PyDate int | PyDatetime int nat | PyOther

fun isinstance_date :: "pyobj \<Rightarrow> bool" where
  "isinstance_date (PyDate d) = True"
| "isinstance_date (PyDatetime d t) = True"
| "isinstance_date PyOther = False"

fun py_gt :: "pyobj \<Rightarrow> pyobj \<Rightarrow> exn + bool" where
  "py_gt (PyDate a) (PyDate b) = Inr (a > b)"
| "py_gt (PyDatetime a s) (PyDatetime b t) = Inr (a > b \<or> (a = b \<and> s > t))"
| "py_gt x y = Inl TypeError"

fun py_lt :: "pyobj \<Rightarrow> pyobj \<Rightarrow> exn + bool" where
  "py_lt x y = py_gt y x"

text \<open>\<open>(end_date - start_date).days\<close>; the time parts of two datetimes borrow a day.\<close>

fun days_between :: "pyobj \<Rightarrow> pyobj \<Rightarrow> exn + int" where
  "days_between (PyDate b) (PyDate a) = Inr (b - a)"
| "days_between (PyDatetime b t) (PyDatetime a s) = Inr (if t < s then b - a - 1 else b - a)"
| "days_between x y = Inl TypeError"

definition MAX_DATE_RANGE_DAYS :: int where
  "MAX_DATE_RANGE_DAYS = 365"

text \<open>The body of the \<open>try\<close> block.\<close>

definition validate_date_range_try :: "int \<Rightarrow> pyobj \<Rightarrow> pyobj \<Rightarrow> exn + bool" where
  "validate_date_range_try today start_date end_date =
     (if \<not> isinstance_date start_date then Inl (DateValidationError StartNotDate)
      else if \<not> isinstance_date end_date then Inl (DateValidationError EndNotDate)
      else (case py_gt start_date end_date of Inl e \<Rightarrow> Inl e | Inr after_end \<Rightarrow>
       (if after_end then Inl (DateValidationError StartAfterEnd)
        else (case py_gt start_date (PyDate today) of Inl e \<Rightarrow> Inl e | Inr start_future \<Rightarrow>
         (if start_future then Inl (DateValidationError StartInFuture)
          else (case py_gt end_date (PyDate today) of Inl e \<Rightarrow> Inl e | Inr end_future \<Rightarrow>
           (if end_future then Inl (DateValidationError EndInFuture)
            else (case days_between end_date start_date of Inl e \<Rightarrow> Inl e | Inr date_range \<Rightarrow>
             (if date_range > MAX_DATE_RANGE_DAYS then Inl (DateValidationError RangeTooLong)
              else (case py_lt start_date (PyDate (today - 365)) of Inl e \<Rightarrow> Inl e
                | Inr too_old \<Rightarrow>
                   (if too_old then Inl (DateValidationError StartTooOld)
                    else Inr True)))))))))))"

text \<open>
  The two handlers: a \<open>DateValidationError\<close> is raised again as it is, any other
  exception is wrapped into one.
\<close>

definition validate_date_range :: "int \<Rightarrow> pyobj \<Rightarrow> pyobj \<Rightarrow> exn + bool" where
  "validate_date_range today start_date end_date =
     (case validate_date_range_try today start_date end_date of
        Inr ok \<Rightarrow> Inr ok
      | Inl (DateValidationError rule) \<Rightarrow> Inl (DateValidationError rule)
      | Inl other \<Rightarrow> Inl (DateValidationError Wrapped))"

section \<open>excel\_exporter.py: progress reporting\<close>

text \<open>
  The exporter holds an optional progress callback. The callback is the caller's code, so
  the model records the arguments it is called with, in order.
\<close>

record exporter =
  has_progress_callback :: bool
  progress_calls :: "int list"

definition update_progress :: "exporter \<Rightarrow> int \<Rightarrow> exporter" where
  "update_progress self progress =
     (if has_progress_callback self
      then self\<lparr>progress_calls := progress_calls self @ [min (max progress 0) 100]\<rparr>
      else self)"

section \<open>Python floats\<close>

text \<open>
  A Python \<open>float\<close> is an IEEE 754 binary64 number. A finite one is a rational of the
  form \<open>m * 2 ^ e\<close> with \<open>\<bar>m\<bar> \<le> 2 ^ 53\<close> and \<open>e \<ge> - 1074\<close>; the model keeps its exact
  value. Every operation computes the exact result and rounds it to the nearest such
  number, ties to the even mantissa; a result of magnitude \<open>2 ^ 1024\<close> or more is an
  infinity. (The sign of zero is not kept: nothing below divides by a zero.)
\<close>

datatype pyfloat = Fin rat | PosInf | NegInf | NaN

definition pow2 :: "int \<Rightarrow> rat" where
  "pow2 e = (if 0 \<le> e then of_int (2 ^ nat e) else 1 / of_int (2 ^ nat (- e)))"

text \<open>The integer part of the binary logarithm of \<open>a / b\<close>, for positive \<open>a\<close> and \<open>b\<close>.\<close>

definition ilog2_div :: "int \<Rightarrow> int \<Rightarrow> int" where
  "ilog2_div a b = (if b \<le> a then bitlen (a div b) - 1 else - bitlen ((b + a - 1) div a - 1))"

text \<open>The integer nearest to \<open>a / b\<close>, for positive \<open>b\<close>; a tie goes to the even one.\<close>

definition round_half_even_div :: "int \<Rightarrow> int \<Rightarrow> int" where
  "round_half_even_div a b =
     (let n = a div b; r = a mod b
      in if 2 * r < b then n else if b < 2 * r then n + 1 else if even n then n else n + 1)"

text \<open>
  Mantissa and exponent of the binary64 number nearest to a positive rational: the
  exponent leaves 53 bits to the mantissa, and stops at \<open>- 1074\<close> (the subnormal range).
\<close>

definition double_parts :: "rat \<Rightarrow> int \<times> int" where
  "double_parts q =
     (let (a, b) = quotient_of q;
          e = max (ilog2_div a b - 52) (- 1074);
          m = (if 0 \<le> e then round_half_even_div a (b * 2 ^ nat e)
               else round_half_even_div (a * 2 ^ nat (- e)) b)
      in (m, e))"

definition to_double :: "rat \<Rightarrow> pyfloat" where
  "to_double q =
     (if q = 0 then Fin 0
      else let (m, e) = double_parts \<bar>q\<bar>
           in if 1024 < bitlen m + e then (if 0 < q then PosInf else NegInf)
              else Fin (sgn q * of_int m * pow2 e))"

text \<open>\<open>float(n)\<close> for an \<open>int\<close>, as mixed arithmetic applies it: too large an \<open>int\<close> raises.\<close>

definition float_of_int :: "int \<Rightarrow> exn + pyfloat" where
  "float_of_int n =
     (case to_double (of_int n) of Fin r \<Rightarrow> Inr (Fin r) | other \<Rightarrow> Inl OverflowError)"

fun fmul :: "pyfloat \<Rightarrow> pyfloat \<Rightarrow> pyfloat" where
  "fmul (Fin a) (Fin b) = to_double (a * b)"
| "fmul NaN y = NaN"
| "fmul x NaN = NaN"
| "fmul (Fin a) PosInf = (if a = 0 then NaN else if 0 < a then PosInf else NegInf)"
| "fmul (Fin a) NegInf = (if a = 0 then NaN else if 0 < a then NegInf else PosInf)"
| "fmul PosInf (Fin b) = (if b = 0 then NaN else if 0 < b then PosInf else NegInf)"
| "fmul NegInf (Fin b) = (if b = 0 then NaN else if 0 < b then NegInf else PosInf)"
| "fmul PosInf PosInf = PosInf"
| "fmul PosInf NegInf = NegInf"
| "fmul NegInf PosInf = NegInf"
| "fmul NegInf NegInf = PosInf"

fun fadd :: "pyfloat \<Rightarrow> pyfloat \<Rightarrow> pyfloat" where
  "fadd (Fin a) (Fin b) = to_double (a + b)"
| "fadd NaN y = NaN"
| "fadd x NaN = NaN"
| "fadd PosInf NegInf = NaN"
| "fadd NegInf PosInf = NaN"
| "fadd PosInf y = PosInf"
| "fadd NegInf y = NegInf"
| "fadd x PosInf = PosInf"
| "fadd x NegInf = NegInf"

text \<open>True division; Python raises on a zero divisor.\<close>

fun fdiv :: "pyfloat \<Rightarrow> pyfloat \<Rightarrow> exn + pyfloat" where
  "fdiv x (Fin b) =
     (if b = 0 then Inl ZeroDivisionError
      else Inr (case x of
                  Fin a \<Rightarrow> to_double (a / b)
                | PosInf \<Rightarrow> (if 0 < b then PosInf else NegInf)
                | NegInf \<Rightarrow> (if 0 < b then NegInf else PosInf)
                | NaN \<Rightarrow> NaN))"
| "fdiv x NaN = Inr NaN"
| "fdiv x y = Inr (case x of Fin a \<Rightarrow> Fin 0 | other \<Rightarrow> NaN)"

text \<open>\<open>x > y\<close>: false whenever a NaN is involved.\<close>

fun fgt :: "pyfloat \<Rightarrow> pyfloat \<Rightarrow> bool" where
  "fgt (Fin a) (Fin b) = (b < a)"
| "fgt (Fin a) NegInf = True"
| "fgt PosInf (Fin b) = True"
| "fgt PosInf NegInf = True"
| "fgt x y = False"

text \<open>\<open>int(x)\<close> truncates towards zero, and raises on an infinity or a NaN.\<close>

fun py_int :: "pyfloat \<Rightarrow> exn + int" where
  "py_int (Fin q) = Inr (if 0 \<le> q then \<lfloor>q\<rfloor> else \<lceil>q\<rceil>)"
| "py_int NaN = Inl ValueError"
| "py_int x = Inl OverflowError"

section \<open>excel\_exporter.py: effort estimation\<close>

text \<open>
  The literals \<open>0.01\<close>, \<open>0.1\<close>, \<open>0.005\<close>, \<open>0.5\<close> and \<open>0.3\<close> are the doubles nearest to them.
  An \<open>int\<close> operand of a mixed operation is converted first; \<open>field_count - 5\<close> is
  integer arithmetic.
\<close>

definition estimate_processing_time :: "int \<Rightarrow> int \<Rightarrow> exn + int" where
  "estimate_processing_time task_count field_count =
     (case float_of_int task_count of Inl e \<Rightarrow> Inl e | Inr tc \<Rightarrow>
      (let base_time = fmul tc (to_double (1 / 100)) in
       (case float_of_int (field_count - 5) of Inl e \<Rightarrow> Inl e | Inr fc \<Rightarrow>
        (let field_factor = fadd (Fin 1) (fmul fc (to_double (1 / 10)));
             format_time = fmul tc (to_double (5 / 1000));
             total_time = fadd (fmul base_time field_factor) format_time
         in (case py_int total_time of Inl e \<Rightarrow> Inl e
             | Inr t \<Rightarrow> Inr (max 1 (min t 300)))))))"

text \<open>
  \<open>max(10, x)\<close> returns \<open>x\<close> when \<open>x > 10\<close> and the \<open>int\<close> 10 otherwise, which the
  following addition converts to \<open>10.0\<close>.
\<close>

definition get_memory_usage_estimate :: "int \<Rightarrow> int \<Rightarrow> exn + int" where
  "get_memory_usage_estimate task_count field_count =
     (case float_of_int field_count of Inl e \<Rightarrow> Inl e | Inr fc \<Rightarrow>
      (let per_task_memory = fmul fc (to_double (1 / 2)) in
       (case float_of_int task_count of Inl e \<Rightarrow> Inl e | Inr tc \<Rightarrow>
        (case fdiv (fmul tc per_task_memory) (Fin 1024) of Inl e \<Rightarrow> Inl e
         | Inr total_memory \<Rightarrow>
           (let scaled = fmul total_memory (to_double (3 / 10));
                overhead = (if fgt scaled (Fin 10) then scaled else Fin 10)
            in py_int (fadd total_memory overhead))))))"

section \<open>JSON values\<close>

text \<open>
  What \<open>json.load\<close> returns and \<open>json.dump\<close> accepts: null, booleans, integers, (finite)
  floats, strings, lists, and objects with string keys. An object is the list of its
  entries in insertion order, with distinct keys, as a Python \<open>dict\<close> keeps them.
\<close>

datatype json =
    JNull | JBool bool | JInt int | JFloat rat | JStr string
  | JList "json list" | JObj "(string \<times> json) list"

section \<open>asana\_client.py: request execution\<close>

text \<open>
  What the client reads of an HTTP response: the status code, the \<open>Retry-After\<close> header
  when there is one, and the result of \<open>response.json()\<close> (\<open>None\<close> when the body is
  not JSON and parsing raises \<open>ValueError\<close>).
\<close>

record response =
  status_code :: nat
  retry_after :: "string option"
  json_body :: "json option"

text \<open>
  What one call of \<open>session.request\<close> does: it returns a response or raises; the
  exceptions are classed by the first \<open>except\<close> clause that catches them.
\<close>

datatype outcome = Responded response | TimeoutExc | ConnectionExc | RequestExc | OtherExc

definition MAX_RETRIES :: nat where
  "MAX_RETRIES = 3"

definition RETRY_DELAY :: int where
  "RETRY_DELAY = 1"

text \<open>\<open>response.ok\<close>: the status is not a client or server error.\<close>

definition ok :: "response \<Rightarrow> bool" where
  "ok r = (\<not> (400 \<le> status_code r \<and> status_code r < 600))"

text \<open>
  \<open>time.sleep\<close> appends the duration to the record of sleeps; it raises on a negative
  or non-finite duration.
\<close>

fun time_sleep :: "pyfloat \<Rightarrow> rat list \<Rightarrow> (exn + unit) \<times> rat list" where
  "time_sleep (Fin s) slept = (if 0 \<le> s then (Inr (), slept @ [s]) else (Inl ValueError, slept))"
| "time_sleep NaN slept = (Inl ValueError, slept)"
| "time_sleep PosInf slept = (Inl OverflowError, slept)"
| "time_sleep NegInf slept = (Inl OverflowError, slept)"

text \<open>
  \<open>_handle_rate_limit\<close>. \<open>py_float\<close> is Python's \<open>float\<close> on a string, \<open>None\<close> where
  it raises \<open>ValueError\<close>. An empty header is falsy and counts as absent.
\<close>

definition handle_rate_limit ::
  "(string \<Rightarrow> pyfloat option) \<Rightarrow> response \<Rightarrow> nat \<Rightarrow> rat list \<Rightarrow> (exn + unit) \<times> rat list" where
  "handle_rate_limit py_float resp attempt slept =
     (if attempt \<ge> MAX_RETRIES - 1 then (Inl AsanaRateLimitError, slept)
      else
        let wait_time =
              (case retry_after resp of
                 None \<Rightarrow> None
               | Some header \<Rightarrow> (if header = [] then None else py_float header))
        in (case wait_time of
              None \<Rightarrow> time_sleep (Fin (of_int (2 ^ attempt * RETRY_DELAY))) slept
            | Some w \<Rightarrow> time_sleep w slept))"

text \<open>\<open>_handle_error_response\<close> always raises; the exception depends on the status.\<close>

definition handle_error_response :: "response \<Rightarrow> exn" where
  "handle_error_response resp =
     (if status_code resp = 401 then AuthenticationError
      else if status_code resp = 403 then AuthenticationError
      else APIError (status_code resp))"

text \<open>
  The handlers around one attempt, for an exception raised by the client's own code in
  the \<open>try\<close> body: the application's error classes are raised again as they are, anything
  else becomes \<open>AsanaAPIError\<close>.
\<close>

fun reraise :: "exn \<Rightarrow> exn" where
  "reraise AuthenticationError = AuthenticationError"
| "reraise (APIError code) = APIError code"
| "reraise NetworkError = NetworkError"
| "reraise AsanaAPIError = AsanaAPIError"
| "reraise AsanaRateLimitError = AsanaRateLimitError"
| "reraise other = AsanaAPIError"

text \<open>
  The loop \<open>for attempt in range(self.MAX_RETRIES)\<close> over the attempts that remain;
  \<open>server attempt\<close> is what the network does at that attempt. The result comes with the
  record of sleeps.
\<close>

fun request_attempts ::
  "(nat \<Rightarrow> outcome) \<Rightarrow> (string \<Rightarrow> pyfloat option) \<Rightarrow> nat list \<Rightarrow> rat list \<Rightarrow>
     (exn + json) \<times> rat list" where
  "request_attempts server py_float [] slept = (Inl AsanaAPIError, slept)"
| "request_attempts server py_float (attempt # rest) slept =
     (case server attempt of
        Responded resp \<Rightarrow>
          (if status_code resp = 429 then
             (case handle_rate_limit py_float resp attempt slept of
                (Inl e, slept') \<Rightarrow> (Inl (reraise e), slept')
              | (Inr u, slept') \<Rightarrow> request_attempts server py_float rest slept')
           else if \<not> ok resp then (Inl (reraise (handle_error_response resp)), slept)
           else (case json_body resp of
                   None \<Rightarrow> (Inl AsanaAPIError, slept)
                 | Some json_response \<Rightarrow> (Inr json_response, slept)))
      | TimeoutExc \<Rightarrow>
          (if attempt = MAX_RETRIES - 1 then (Inl NetworkError, slept)
           else request_attempts server py_float rest (slept @ [of_int RETRY_DELAY]))
      | ConnectionExc \<Rightarrow>
          (if attempt = MAX_RETRIES - 1 then (Inl NetworkError, slept)
           else request_attempts server py_float rest (slept @ [of_int RETRY_DELAY]))
      | RequestExc \<Rightarrow> (Inl NetworkError, slept)
      | OtherExc \<Rightarrow> (Inl AsanaAPIError, slept))"

definition make_request ::
  "(nat \<Rightarrow> outcome) \<Rightarrow> (string \<Rightarrow> pyfloat option) \<Rightarrow> (exn + json) \<times> rat list" where
  "make_request server py_float = request_attempts server py_float [0..<MAX_RETRIES] []"

section \<open>config\_manager.py: encryption of the access token\<close>

text \<open>
  A Python \<open>str\<close> is represented by its UTF-8 bytes; a lone surrogate, which a \<open>str\<close>
  may hold but UTF-8 refuses, by the three bytes the encoding would give it if it were
  allowed (\<open>'\ud800'\<close> is \<open>ED A0 80\<close>).

  The library functions the configuration store calls are parameters: UTF-8 encoding
  and decoding, Fernet encryption and decryption under the stored key, base64, and
  \<open>int\<close> on a string. A function that can raise returns \<open>None\<close> where it does;
  \<open>str.encode\<close> raises on a text with a lone surrogate. Fernet encryption is randomised:
  its first argument stands for the time and the random bytes it draws.
\<close>

type_synonym bytes = string

record library =
  utf8_encode :: "string \<Rightarrow> bytes option"
  utf8_decode :: "bytes \<Rightarrow> string option"
  fernet_encrypt :: "nat \<Rightarrow> bytes \<Rightarrow> bytes"
  fernet_decrypt :: "bytes \<Rightarrow> bytes option"
  b64encode :: "bytes \<Rightarrow> bytes"
  b64decode :: "bytes \<Rightarrow> bytes option"
  int_parses :: "string \<Rightarrow> bool"

text \<open>
  Both functions take and return the number of calls made to the Fernet primitive so
  far; encryption uses it as the source of its randomness. Any exception inside the
  \<open>try\<close> block, that of \<open>encode\<close> included, is raised again as \<open>ValueError\<close>.
\<close>

definition encrypt_sensitive_data :: "library \<Rightarrow> string \<Rightarrow> nat \<Rightarrow> (exn + string) \<times> nat" where
  "encrypt_sensitive_data lib data calls =
     (if data = [] then (Inr [], calls)
      else
        (case utf8_encode lib data of
           None \<Rightarrow> (Inl ValueError, calls)
         | Some plain \<Rightarrow>
             (let encrypted_data = fernet_encrypt lib calls plain
              in (case utf8_decode lib (b64encode lib encrypted_data) of
                    None \<Rightarrow> (Inl ValueError, Suc calls)
                  | Some text \<Rightarrow> (Inr text, Suc calls)))))"

definition decrypt_sensitive_data :: "library \<Rightarrow> string \<Rightarrow> nat \<Rightarrow> (exn + string) \<times> nat" where
  "decrypt_sensitive_data lib encrypted_data calls =
     (if encrypted_data = [] then (Inr [], calls)
      else
        (case utf8_encode lib encrypted_data of
           None \<Rightarrow> (Inl ValueError, calls)
         | Some encoded \<Rightarrow>
             (case b64decode lib encoded of
                None \<Rightarrow> (Inl ValueError, calls)
              | Some decoded_data \<Rightarrow>
                  (case fernet_decrypt lib decoded_data of
                     None \<Rightarrow> (Inl ValueError, Suc calls)
                   | Some decrypted_data \<Rightarrow>
                       (case utf8_decode lib decrypted_data of
                          None \<Rightarrow> (Inl ValueError, Suc calls)
                        | Some text \<Rightarrow> (Inr text, Suc calls))))))"

text \<open>
  The documented behaviour of the library functions: decoding inverts encoding, for
  UTF-8, base64 and Fernet; ASCII text can be encoded; base64 output is ASCII, so it
  decodes to a text that encodes back to it; a Fernet token is never empty; \<open>int\<close>
  accepts a plain run of digits.
\<close>

definition library_laws :: "library \<Rightarrow> bool" where
  "library_laws lib \<longleftrightarrow>
     (\<forall>s b. utf8_encode lib s = Some b \<longrightarrow> utf8_decode lib b = Some s) \<and>
     (\<forall>s. list_all (\<lambda>c. of_char c < (128 :: nat)) s \<longrightarrow> utf8_encode lib s \<noteq> None) \<and>
     (\<forall>b. b64decode lib (b64encode lib b) = Some b) \<and>
     (\<forall>b. \<exists>t. utf8_decode lib (b64encode lib b) = Some t \<and>
             utf8_encode lib t = Some (b64encode lib b)) \<and>
     (\<forall>n b. fernet_decrypt lib (fernet_encrypt lib n b) = Some b) \<and>
     (\<forall>n b. utf8_decode lib (b64encode lib (fernet_encrypt lib n b)) \<noteq> Some []) \<and>
     (\<forall>s. s \<noteq> [] \<and> list_all (\<lambda>c. c \<in> set ''0123456789'') s \<longrightarrow> int_parses lib s)"

text \<open>
  A small instance for running the model. A text encodes to its own bytes unless it
  holds a surrogate (the byte \<open>ED\<close> followed by a byte from \<open>A0\<close> on); the stand-in for
  base64 puts a dot before every byte, so that its output is never refused; the cipher
  prepends one letter, chosen by its random input, which decryption checks and strips.
\<close>

fun has_surrogate :: "string \<Rightarrow> bool" where
  "has_surrogate (c # d # cs) =
     ((c = CHR 0xED \<and> (160 :: nat) \<le> of_char d) \<or> has_surrogate (d # cs))"
| "has_surrogate cs = False"

fun dotted :: "bytes \<Rightarrow> bytes" where
  "dotted [] = []"
| "dotted (c # cs) = CHR ''.'' # c # dotted cs"

fun undotted :: "bytes \<Rightarrow> bytes option" where
  "undotted [] = Some []"
| "undotted [c] = None"
| "undotted (c # d # cs) =
     (if c = CHR ''.'' then (case undotted cs of None \<Rightarrow> None | Some ds \<Rightarrow> Some (d # ds))
      else None)"

definition toy_library :: library where
  "toy_library =
     \<lparr>utf8_encode = (\<lambda>s. if has_surrogate s then None else Some s),
      utf8_decode = (\<lambda>b. if has_surrogate b then None else Some b),
      fernet_encrypt = (\<lambda>n b. (if even n then CHR ''g'' else CHR ''h'') # b),
      fernet_decrypt =
        (\<lambda>t. case t of [] \<Rightarrow> None
              | c # b \<Rightarrow> if c = CHR ''g'' \<or> c = CHR ''h'' then Some b else None),
      b64encode = dotted,
      b64decode = undotted,
      int_parses = (\<lambda>s. s \<noteq> [] \<and> list_all (\<lambda>c. c \<in> set ''0123456789'') s)\<rparr>"

text \<open>The text \<open>'\ud800'\<close>, a lone surrogate.\<close>

definition lone_surrogate :: string where
  "lone_surrogate = [CHR 0xED, CHR 0xA0, CHR 0x80]"

section \<open>config\_manager.py: the configuration store\<close>

subsection \<open>Python operations on JSON values\<close>

text \<open>Truthiness, as \<open>if value:\<close> tests it.\<close>

fun truthy :: "json \<Rightarrow> bool" where
  "truthy JNull = False"
| "truthy (JBool b) = b"
| "truthy (JInt i) = (i \<noteq> 0)"
| "truthy (JFloat x) = (x \<noteq> 0)"
| "truthy (JStr s) = (s \<noteq> [])"
| "truthy (JList xs) = (xs \<noteq> [])"
| "truthy (JObj kvs) = (kvs \<noteq> [])"

text \<open>\<open>d.get(key, default)\<close>: only a dict has the method.\<close>

fun py_get :: "json \<Rightarrow> string \<Rightarrow> json \<Rightarrow> exn + json" where
  "py_get (JObj kvs) key dflt = Inr (case map_of kvs key of None \<Rightarrow> dflt | Some v \<Rightarrow> v)"
| "py_get other key dflt = Inl AttributeError"

text \<open>\<open>d[key] = value\<close> on a dict: an existing key keeps its place, a new one goes last.\<close>

fun obj_update :: "string \<Rightarrow> 'v \<Rightarrow> (string \<times> 'v) list \<Rightarrow> (string \<times> 'v) list" where
  "obj_update key v [] = [(key, v)]"
| "obj_update key v ((k, w) # kvs) =
     (if k = key then (k, v) # kvs else (k, w) # obj_update key v kvs)"

text \<open>\<open>config["asana"]["access_token"] = value\<close>, for a configuration that has the section.\<close>

definition set_access_token :: "json \<Rightarrow> string \<Rightarrow> json" where
  "set_access_token config token =
     (case config of
        JObj kvs \<Rightarrow>
          (case map_of kvs ''asana'' of
             Some (JObj asana_kvs) \<Rightarrow>
               JObj (obj_update ''asana''
                      (JObj (obj_update ''access_token'' (JStr token) asana_kvs)) kvs)
           | other \<Rightarrow> config)
      | other \<Rightarrow> config)"

fun is_str :: "json \<Rightarrow> bool" where
  "is_str (JStr s) = True"
| "is_str other = False"

fun is_list :: "json \<Rightarrow> bool" where
  "is_list (JList xs) = True"
| "is_list other = False"

text \<open>\<open>isinstance(value, int)\<close> holds of a \<open>bool\<close> too; the second function is its value.\<close>

fun is_int :: "json \<Rightarrow> bool" where
  "is_int (JInt i) = True"
| "is_int (JBool b) = True"
| "is_int other = False"

fun int_value :: "json \<Rightarrow> int" where
  "int_value (JInt i) = i"
| "int_value (JBool b) = (if b then 1 else 0)"
| "int_value other = 0"

text \<open>\<open>s.split('x')\<close>.\<close>

fun split_x :: "string \<Rightarrow> string list" where
  "split_x [] = [[]]"
| "split_x (c # cs) =
     (if c = CHR ''x'' then [] # split_x cs
      else (case split_x cs of [] \<Rightarrow> [[c]] | part # parts \<Rightarrow> (c # part) # parts))"

text \<open>\<open>needle in haystack\<close> for two strings: the needle occurs as a substring.\<close>

fun starts_with :: "string \<Rightarrow> string \<Rightarrow> bool" where
  "starts_with [] s = True"
| "starts_with (c # cs) [] = False"
| "starts_with (c # cs) (d # ds) = (c = d \<and> starts_with cs ds)"

fun str_contains :: "string \<Rightarrow> string \<Rightarrow> bool" where
  "str_contains [] needle = (needle = [])"
| "str_contains (c # cs) needle = (starts_with needle (c # cs) \<or> str_contains cs needle)"

subsection \<open>Defaults\<close>

text \<open>
  The environment: the home directory as \<open>str(Path.home())\<close> gives it (without a
  trailing separator), the path separator, which paths exist and which are directories,
  and the text \<open>str(Path(p))\<close> that \<open>pathlib\<close> makes of a path \<open>p\<close>.
\<close>

record env =
  home :: string
  sep :: string
  path_exists :: "string \<Rightarrow> bool"
  path_is_dir :: "string \<Rightarrow> bool"
  path_str :: "string \<Rightarrow> string"

text \<open>\<open>str(Path.home() / "Documents")\<close>.\<close>

definition documents_path :: "env \<Rightarrow> string" where
  "documents_path e = home e @ sep e @ ''Documents''"

definition get_default_config :: "env \<Rightarrow> json" where
  "get_default_config e =
     JObj
      [(''asana'', JObj
          [(''access_token'', JStr []),
           (''selected_project_id'', JStr []),
           (''selected_project_name'', JStr [])]),
       (''export'', JObj
          [(''default_date_range'', JInt 30),
           (''selected_fields'',
              JList [JStr ''name'', JStr ''created_at'', JStr ''assignee'', JStr ''completed'',
                     JStr ''due_date'']),
           (''output_directory'', JStr (documents_path e))]),
       (''ui'', JObj
          [(''window_size'', JStr ''800x600''),
           (''last_export_path'', JStr [])])]"

subsection \<open>Validation\<close>

text \<open>
  \<open>section not in config\<close> and \<open>config[section]\<close> for the three sections. On a dict
  they look the key up. A list or a string supports \<open>in\<close> (as membership, as substring)
  but not indexing by a string; the other values support neither.
\<close>

definition required_sections :: "string list" where
  "required_sections = [''asana'', ''export'', ''ui'']"

fun check_sections :: "json \<Rightarrow> exn + (string \<times> json) list" where
  "check_sections (JObj kvs) =
     (if list_all (\<lambda>section. map_of kvs section \<noteq> None) required_sections then Inr kvs
      else Inl ValueError)"
| "check_sections (JList xs) =
     (if list_all (\<lambda>section. JStr section \<in> set xs) required_sections then Inl TypeError
      else Inl ValueError)"
| "check_sections (JStr s) =
     (if list_all (\<lambda>section. str_contains s section) required_sections then Inl TypeError
      else Inl ValueError)"
| "check_sections other = Inl TypeError"

text \<open>One \<open>isinstance(section.get(key, default), str)\<close> test.\<close>

definition get_is_str :: "json \<Rightarrow> string \<Rightarrow> exn + bool" where
  "get_is_str section key =
     (case py_get section key (JStr []) of Inl e \<Rightarrow> Inl e | Inr v \<Rightarrow> Inr (is_str v))"

definition validate_asana :: "json \<Rightarrow> exn + bool" where
  "validate_asana asana_config =
     (case get_is_str asana_config ''access_token'' of Inl e \<Rightarrow> Inl e | Inr b1 \<Rightarrow>
      (if \<not> b1 then Inl ValueError
       else (case get_is_str asana_config ''selected_project_id'' of Inl e \<Rightarrow> Inl e | Inr b2 \<Rightarrow>
        (if \<not> b2 then Inl ValueError
         else (case get_is_str asana_config ''selected_project_name'' of Inl e \<Rightarrow> Inl e
               | Inr b3 \<Rightarrow> (if \<not> b3 then Inl ValueError else Inr True))))))"

definition validate_export :: "json \<Rightarrow> exn + bool" where
  "validate_export export_config =
     (case py_get export_config ''default_date_range'' (JInt 0) of Inl e \<Rightarrow> Inl e
      | Inr date_range \<Rightarrow>
       (if \<not> is_int date_range then Inl ValueError
        else if int_value date_range \<le> 0 then Inl ValueError
        else (case py_get export_config ''selected_fields'' (JList []) of Inl e \<Rightarrow> Inl e
              | Inr selected \<Rightarrow>
               (if \<not> is_list selected then Inl ValueError
                else (case get_is_str export_config ''output_directory'' of Inl e \<Rightarrow> Inl e
                      | Inr b \<Rightarrow> (if \<not> b then Inl ValueError else Inr True))))))"

text \<open>
  The format check of \<open>window_size\<close>: when the text holds an \<open>x\<close>, splitting at \<open>x\<close>
  must give two parts (the unpacking raises \<open>ValueError\<close> otherwise) that \<open>int\<close> accepts.
\<close>

definition window_size_ok :: "library \<Rightarrow> string \<Rightarrow> bool" where
  "window_size_ok lib window_size =
     (if window_size \<noteq> [] \<and> CHR ''x'' \<in> set window_size then
        (case split_x window_size of
           [width, height] \<Rightarrow> int_parses lib width \<and> int_parses lib height
         | other \<Rightarrow> False)
      else True)"

definition validate_ui :: "library \<Rightarrow> json \<Rightarrow> exn + bool" where
  "validate_ui lib ui_config =
     (case py_get ui_config ''window_size'' (JStr []) of Inl e \<Rightarrow> Inl e
      | Inr (JStr window_size) \<Rightarrow>
          (if window_size_ok lib window_size then Inr True else Inl ValueError)
      | Inr other \<Rightarrow> Inl ValueError)"

text \<open>\<open>config[section]\<close> on the entries of a dict.\<close>

definition py_getitem :: "(string \<times> json) list \<Rightarrow> string \<Rightarrow> exn + json" where
  "py_getitem kvs key = (case map_of kvs key of None \<Rightarrow> Inl KeyError | Some v \<Rightarrow> Inr v)"

definition validate_config :: "library \<Rightarrow> json \<Rightarrow> exn + bool" where
  "validate_config lib config =
     (case check_sections config of Inl e \<Rightarrow> Inl e | Inr kvs \<Rightarrow>
      (case py_getitem kvs ''asana'' of Inl e \<Rightarrow> Inl e | Inr asana_config \<Rightarrow>
       (case validate_asana asana_config of Inl e \<Rightarrow> Inl e | Inr b1 \<Rightarrow>
        (case py_getitem kvs ''export'' of Inl e \<Rightarrow> Inl e | Inr export_config \<Rightarrow>
         (case validate_export export_config of Inl e \<Rightarrow> Inl e | Inr b2 \<Rightarrow>
          (case py_getitem kvs ''ui'' of Inl e \<Rightarrow> Inl e | Inr ui_config \<Rightarrow>
            validate_ui lib ui_config))))))"

subsection \<open>Saving and loading\<close>

text \<open>
  The state of the store: the configuration file (absent, or what \<open>json.load\<close> makes of
  it: a document, or a \<open>JSONDecodeError\<close> for a corrupt file), whether the file can be
  written, and the number of calls made to the Fernet primitive.
\<close>

datatype file_content = Corrupt | Doc json

record store =
  config_file :: "file_content option"
  writable :: bool
  fernet_calls :: nat

text \<open>\<open>config.get("asana", {}).get("access_token")\<close>.\<close>

definition access_token_of :: "json \<Rightarrow> exn + json" where
  "access_token_of config =
     (case py_get config ''asana'' (JObj []) of
        Inl e \<Rightarrow> Inl e
      | Inr asana_config \<Rightarrow> py_get asana_config ''access_token'' JNull)"

text \<open>
  The two functions of the previous section on an untyped argument: a truthy value that
  is not a string has no \<open>encode\<close> method, which the \<open>try\<close> block turns into \<open>ValueError\<close>.
\<close>

definition encrypt_value :: "library \<Rightarrow> json \<Rightarrow> nat \<Rightarrow> (exn + string) \<times> nat" where
  "encrypt_value lib v calls =
     (case v of
        JStr s \<Rightarrow> encrypt_sensitive_data lib s calls
      | other \<Rightarrow> (if truthy other then (Inl ValueError, calls) else (Inr [], calls)))"

definition decrypt_value :: "library \<Rightarrow> json \<Rightarrow> nat \<Rightarrow> (exn + string) \<times> nat" where
  "decrypt_value lib v calls =
     (case v of
        JStr s \<Rightarrow> decrypt_sensitive_data lib s calls
      | other \<Rightarrow> (if truthy other then (Inl ValueError, calls) else (Inr [], calls)))"

text \<open>
  Whether \<open>json.dump\<close> with \<open>ensure_ascii=False\<close> can write a value to the file, which
  is opened with the UTF-8 encoding: every key and every string in it must be encodable.
\<close>

fun json_encodable :: "library \<Rightarrow> json \<Rightarrow> bool" where
  "json_encodable lib (JStr s) = (utf8_encode lib s \<noteq> None)"
| "json_encodable lib (JList xs) = list_all (json_encodable lib) xs"
| "json_encodable lib (JObj kvs) =
     list_all (\<lambda>kv. utf8_encode lib (fst kv) \<noteq> None \<and> json_encodable lib (snd kv)) kvs"
| "json_encodable lib other = True"

text \<open>
  \<open>save_config\<close>: validation and encryption raise to the caller; a failure to write,
  because the file cannot be written or the text cannot be encoded, raises \<open>IOError\<close>
  and leaves the file as it was.
\<close>

definition save_config :: "library \<Rightarrow> json \<Rightarrow> store \<Rightarrow> (exn + unit) \<times> store" where
  "save_config lib config st =
     (case validate_config lib config of
        Inl e \<Rightarrow> (Inl e, st)
      | Inr valid \<Rightarrow>
         (case access_token_of config of
            Inl e \<Rightarrow> (Inl e, st)
          | Inr token \<Rightarrow>
             (case (if truthy token
                    then (case encrypt_value lib token (fernet_calls st) of
                            (Inl e, calls) \<Rightarrow> (Inl e, calls)
                          | (Inr encrypted, calls) \<Rightarrow>
                              (Inr (set_access_token config encrypted), calls))
                    else (Inr config, fernet_calls st)) of
                (Inl e, calls) \<Rightarrow> (Inl e, st\<lparr>fernet_calls := calls\<rparr>)
              | (Inr config_to_save, calls) \<Rightarrow>
                  (if writable st \<and> json_encodable lib config_to_save
                   then (Inr (), st\<lparr>config_file := Some (Doc config_to_save),
                                    fernet_calls := calls\<rparr>)
                   else (Inl IOError, st\<lparr>fernet_calls := calls\<rparr>)))))"

text \<open>The \<open>try\<close> block of \<open>load_config\<close> after the file has been parsed.\<close>

definition load_try :: "library \<Rightarrow> json \<Rightarrow> nat \<Rightarrow> (exn + json) \<times> nat" where
  "load_try lib config calls =
     (case access_token_of config of
        Inl e \<Rightarrow> (Inl e, calls)
      | Inr token \<Rightarrow>
         (case (if truthy token
                then (case decrypt_value lib token calls of
                        (Inl e, calls') \<Rightarrow> (Inl e, calls')
                      | (Inr decrypted, calls') \<Rightarrow>
                          (Inr (set_access_token config decrypted), calls'))
                else (Inr config, calls)) of
            (Inl e, calls') \<Rightarrow> (Inl e, calls')
          | (Inr loaded, calls') \<Rightarrow>
              (case validate_config lib loaded of
                 Inl e \<Rightarrow> (Inl e, calls')
               | Inr valid \<Rightarrow> (Inr loaded, calls'))))"

text \<open>
  \<open>load_config\<close>: no file gives the defaults; a corrupt file raises \<open>ValueError\<close>; any
  other failure is logged and gives the defaults.
\<close>

definition load_config :: "library \<Rightarrow> env \<Rightarrow> store \<Rightarrow> (exn + json) \<times> store" where
  "load_config lib e st =
     (case config_file st of
        None \<Rightarrow> (Inr (get_default_config e), st)
      | Some Corrupt \<Rightarrow> (Inl ValueError, st)
      | Some (Doc config) \<Rightarrow>
          (case load_try lib config (fernet_calls st) of
             (Inl err, calls) \<Rightarrow> (Inr (get_default_config e), st\<lparr>fernet_calls := calls\<rparr>)
           | (Inr loaded, calls) \<Rightarrow> (Inr loaded, st\<lparr>fernet_calls := calls\<rparr>)))"

definition config_exists :: "store \<Rightarrow> bool" where
  "config_exists st = (config_file st \<noteq> None)"

subsection \<open>Sample data\<close>



definition sample_env :: env where
  "sample_env =
     \<lparr>home = ''/home/u'', sep = ''/'', path_exists = (\<lambda>p. p = ''/home/u''),
      path_is_dir = (\<lambda>p. p = ''/home/u''), path_str = (\<lambda>p. p)\<rparr>"

section \<open>config\_schema.py: the configuration dataclasses\<close>

text \<open>
  A dataclass does not check the types of its fields, so each field holds whatever JSON
  value the constructor was given.
\<close>

record AsanaConfig =
  access_token :: json
  selected_project_id :: json
  selected_project_name :: json

record ExportConfig =
  default_date_range :: json
  selected_fields :: json
  output_directory :: json

record UIConfig =
  window_size :: json
  last_export_path :: json

record AppConfig =
  asana :: AsanaConfig
  export :: ExportConfig
  ui :: UIConfig

text \<open>
  \<open>Class(**data)\<close>: \<open>data\<close> must be a dict whose keys are field names, or the call
  raises \<open>TypeError\<close>; a field without an entry takes its default.
\<close>

definition kwargs :: "json \<Rightarrow> string list \<Rightarrow> exn + (string \<times> json) list" where
  "kwargs data field_names =
     (case data of
        JObj kvs \<Rightarrow>
          (if list_all (\<lambda>(k, v). k \<in> set field_names) kvs then Inr kvs else Inl TypeError)
      | other \<Rightarrow> Inl TypeError)"

definition field_or :: "(string \<times> json) list \<Rightarrow> string \<Rightarrow> json \<Rightarrow> json" where
  "field_or kvs key dflt = (case map_of kvs key of None \<Rightarrow> dflt | Some v \<Rightarrow> v)"

definition new_AsanaConfig :: "json \<Rightarrow> exn + AsanaConfig" where
  "new_AsanaConfig data =
     (case kwargs data [''access_token'', ''selected_project_id'', ''selected_project_name''] of
        Inl e \<Rightarrow> Inl e
      | Inr kvs \<Rightarrow>
          Inr \<lparr>access_token = field_or kvs ''access_token'' (JStr []),
               selected_project_id = field_or kvs ''selected_project_id'' (JStr []),
               selected_project_name = field_or kvs ''selected_project_name'' (JStr [])\<rparr>)"

text \<open>\<open>ExportConfig.__post_init__\<close> fills in the field list and the output directory.\<close>

definition ExportConfig_post_init :: "env \<Rightarrow> ExportConfig \<Rightarrow> ExportConfig" where
  "ExportConfig_post_init e self =
     (let self1 =
            (if selected_fields self = JNull
             then self\<lparr>selected_fields :=
                    JList [JStr ''name'', JStr ''created_at'', JStr ''assignee'',
                           JStr ''completed'', JStr ''due_date'']\<rparr>
             else self)
      in if \<not> truthy (output_directory self1)
         then self1\<lparr>output_directory := JStr (documents_path e)\<rparr>
         else self1)"

definition new_ExportConfig :: "env \<Rightarrow> json \<Rightarrow> exn + ExportConfig" where
  "new_ExportConfig e data =
     (case kwargs data [''default_date_range'', ''selected_fields'', ''output_directory''] of
        Inl err \<Rightarrow> Inl err
      | Inr kvs \<Rightarrow>
          Inr (ExportConfig_post_init e
                \<lparr>default_date_range = field_or kvs ''default_date_range'' (JInt 30),
                 selected_fields = field_or kvs ''selected_fields'' JNull,
                 output_directory = field_or kvs ''output_directory'' (JStr [])\<rparr>))"

definition new_UIConfig :: "json \<Rightarrow> exn + UIConfig" where
  "new_UIConfig data =
     (case kwargs data [''window_size'', ''last_export_path''] of
        Inl e \<Rightarrow> Inl e
      | Inr kvs \<Rightarrow>
          Inr \<lparr>window_size = field_or kvs ''window_size'' (JStr ''800x600''),
               last_export_path = field_or kvs ''last_export_path'' (JStr [])\<rparr>)"

text \<open>\<open>AppConfig()\<close>: every section built from its defaults.\<close>

definition new_AppConfig :: "env \<Rightarrow> AppConfig" where
  "new_AppConfig e =
     \<lparr>asana = \<lparr>access_token = JStr [], selected_project_id = JStr [],
               selected_project_name = JStr []\<rparr>,
      export = ExportConfig_post_init e
                 \<lparr>default_date_range = JInt 30, selected_fields = JNull,
                  output_directory = JStr []\<rparr>,
      ui = \<lparr>window_size = JStr ''800x600'', last_export_path = JStr []\<rparr>\<rparr>"

text \<open>\<open>AppConfig.to_dict\<close>, that is \<open>dataclasses.asdict\<close>.\<close>

definition to_dict :: "AppConfig \<Rightarrow> json" where
  "to_dict self =
     JObj
      [(''asana'', JObj
          [(''access_token'', access_token (asana self)),
           (''selected_project_id'', selected_project_id (asana self)),
           (''selected_project_name'', selected_project_name (asana self))]),
       (''export'', JObj
          [(''default_date_range'', default_date_range (export self)),
           (''selected_fields'', selected_fields (export self)),
           (''output_directory'', output_directory (export self))]),
       (''ui'', JObj
          [(''window_size'', window_size (ui self)),
           (''last_export_path'', last_export_path (ui self))])]"

text \<open>\<open>AppConfig.from_dict\<close>: a missing section is built from an empty dict.\<close>

definition from_dict :: "env \<Rightarrow> json \<Rightarrow> exn + AppConfig" where
  "from_dict e data =
     (case py_get data ''asana'' (JObj []) of Inl err \<Rightarrow> Inl err | Inr asana_data \<Rightarrow>
      (case py_get data ''export'' (JObj []) of Inl err \<Rightarrow> Inl err | Inr export_data \<Rightarrow>
       (case py_get data ''ui'' (JObj []) of Inl err \<Rightarrow> Inl err | Inr ui_data \<Rightarrow>
        (case new_AsanaConfig asana_data of Inl err \<Rightarrow> Inl err | Inr a \<Rightarrow>
         (case new_ExportConfig e export_data of Inl err \<Rightarrow> Inl err | Inr x \<Rightarrow>
          (case new_UIConfig ui_data of Inl err \<Rightarrow> Inl err | Inr u \<Rightarrow>
            Inr \<lparr>asana = a, export = x, ui = u\<rparr>))))))"

text \<open>The \<open>output_directory\<close> entry of a configuration in its dict form.\<close>

definition output_directory_of :: "json \<Rightarrow> exn + json" where
  "output_directory_of config =
     (case py_get config ''export'' (JObj []) of
        Inl e \<Rightarrow> Inl e
      | Inr export_config \<Rightarrow> py_get export_config ''output_directory'' JNull)"

section \<open>config\_initializer.py\<close>

definition is_first_run :: "store \<Rightarrow> bool" where
  "is_first_run st = (\<not> config_exists st)"

text \<open>
  \<open>initialize_default_config\<close>: the output directory is Documents when that directory
  exists and the home directory otherwise; a failure to save is raised as \<open>RuntimeError\<close>.
\<close>

definition initialize_default_config ::
  "library \<Rightarrow> env \<Rightarrow> store \<Rightarrow> (exn + AppConfig) \<times> store" where
  "initialize_default_config lib e st =
     (let config0 = new_AppConfig e;
          directory =
            (if path_exists e (documents_path e) then documents_path e else home e);
          config = config0\<lparr>export := (export config0)
                     \<lparr>output_directory := JStr directory,
                      selected_fields := JList (map JStr DEFAULT_SELECTED_FIELDS)\<rparr>\<rparr>
      in (case save_config lib (to_dict config) st of
            (Inl err, st') \<Rightarrow> (Inl RuntimeError, st')
          | (Inr u, st') \<Rightarrow> (Inr config, st')))"

text \<open>
  \<open>initialize_with_user_input\<close>. The field selection is \<open>None\<close> or a list of keys; an
  empty argument leaves the default in place.
\<close>

definition initialize_with_user_input ::
  "library \<Rightarrow> env \<Rightarrow> string \<Rightarrow> string \<Rightarrow> string list option \<Rightarrow> store \<Rightarrow>
     (exn + AppConfig) \<times> store" where
  "initialize_with_user_input lib e token directory selection st =
     (let config0 = new_AppConfig e;
          config1 =
            (if token \<noteq> [] then config0\<lparr>asana := (asana config0)\<lparr>access_token := JStr token\<rparr>\<rparr>
             else config0);
          config2 =
            (if directory \<noteq> [] then
               config1\<lparr>export := (export config1)\<lparr>output_directory :=
                 JStr (if path_exists e directory \<and> path_is_dir e directory
                       then path_str e directory else documents_path e)\<rparr>\<rparr>
             else config1);
          config =
            (case selection of
               None \<Rightarrow> config2
             | Some keys \<Rightarrow>
                 (if keys \<noteq> [] then
                    config2\<lparr>export := (export config2)\<lparr>selected_fields :=
                      JList (map JStr (validate_selected_fields keys))\<rparr>\<rparr>
                  else config2))
      in (case save_config lib (to_dict config) st of
            (Inl err, st') \<Rightarrow> (Inl RuntimeError, st')
          | (Inr u, st') \<Rightarrow> (Inr config, st')))"

text \<open>The \<open>try\<close> block of \<open>setup_application\<close>.\<close>

definition setup_try ::
  "library \<Rightarrow> env \<Rightarrow> string \<Rightarrow> string \<Rightarrow> string list option \<Rightarrow> store \<Rightarrow>
     (exn + AppConfig) \<times> store" where
  "setup_try lib e token directory selection st =
     (if is_first_run st then
        (if token \<noteq> [] \<or> directory \<noteq> [] \<or> (selection \<noteq> None \<and> selection \<noteq> Some [])
         then initialize_with_user_input lib e token directory selection st
         else initialize_default_config lib e st)
      else
        (case load_config lib e st of
           (Inl err, st') \<Rightarrow> (Inl err, st')
         | (Inr config_dict, st') \<Rightarrow>
             (case from_dict e config_dict of
                Inl err \<Rightarrow> (Inl err, st')
              | Inr config \<Rightarrow> (Inr config, st'))))"

text \<open>
  \<open>setup_application\<close>: the handler of the \<open>try\<close> block returns what
  \<open>initialize_default_config\<close> returns, and raises what it raises.
\<close>

definition setup_application ::
  "library \<Rightarrow> env \<Rightarrow> string \<Rightarrow> string \<Rightarrow> string list option \<Rightarrow> store \<Rightarrow>
     (exn + AppConfig) \<times> store" where
  "setup_application lib e token directory selection st =
     (case setup_try lib e token directory selection st of
        (Inl err, st') \<Rightarrow> initialize_default_config lib e st'
      | (Inr config, st') \<Rightarrow> (Inr config, st'))"

section \<open>models.py: tasks\<close>

text \<open>
  A task. A \<open>datetime\<close> is a day number with the time of day, a \<open>date\<close> a day number.
  The fields \<open>id\<close> and \<open>notes\<close> are \<open>task_id\<close> and \<open>task_notes\<close> here.
\<close>

record Task =
  task_id :: string
  name :: string
  created_at :: "int \<times> nat"
  modified_at :: "int \<times> nat"
  completed :: bool
  assignee :: "string option"
  due_date :: "int option"
  task_notes :: string
  custom_fields :: "(string \<times> json) list"

text \<open>
  The values of an output row. \<open>CIsoDatetime\<close> and \<open>CIsoDate\<close> stand for the text that
  \<open>isoformat()\<close> makes of a datetime and of a date; \<open>CCustom\<close> holds the value of a custom
  field.
\<close>

datatype cell =
    CNone | CBool bool | CStr string | CIsoDatetime "int \<times> nat" | CIsoDate int | CCustom json

text \<open>
  \<open>Task.to_dict\<close>. A dict is the list of its entries in insertion order. The custom
  fields are written over the eight basic entries; a dict comprehension writes its
  entries one after the other.
\<close>

definition base_data :: "Task \<Rightarrow> (string \<times> cell) list" where
  "base_data self =
     foldl (\<lambda>d (key, v). obj_update key (CCustom v) d)
       [(''id'', CStr (task_id self)),
        (''name'', CStr (name self)),
        (''created_at'', CIsoDatetime (created_at self)),
        (''modified_at'', CIsoDatetime (modified_at self)),
        (''completed'', CBool (completed self)),
        (''assignee'', (case assignee self of None \<Rightarrow> CNone | Some a \<Rightarrow> CStr a)),
        (''due_date'', (case due_date self of None \<Rightarrow> CNone | Some d \<Rightarrow> CIsoDate d)),
        (''notes'', CStr (task_notes self))]
       (custom_fields self)"

definition task_to_dict :: "Task \<Rightarrow> string list \<Rightarrow> (string \<times> cell) list" where
  "task_to_dict self selected =
     (if selected \<noteq> [] then
        foldl (\<lambda>row key.
                 (case map_of (base_data self) key of
                    None \<Rightarrow> row
                  | Some v \<Rightarrow> obj_update key v row))
          [] selected
      else base_data self)"

text \<open>\<open>DEFAULT_TASK_FIELDS\<close>: name, type and whether required (the labels are left out).\<close>

definition DEFAULT_TASK_FIELDS :: "(string \<times> string \<times> bool) list" where
  "DEFAULT_TASK_FIELDS =
     [(''id'', ''string'', True),
      (''name'', ''string'', True),
      (''created_at'', ''datetime'', True),
      (''modified_at'', ''datetime'', False),
      (''completed'', ''boolean'', False),
      (''assignee'', ''string'', False),
      (''due_date'', ''date'', False),
      (''notes'', ''text'', False)]"

section \<open>task\_manager.py: field filtering\<close>

definition get_available_field_names :: "string list" where
  "get_available_field_names = map fst DEFAULT_TASK_FIELDS"

definition get_required_field_names :: "string list" where
  "get_required_field_names =
     map fst (filter (\<lambda>(field_name, field_type, required). required) DEFAULT_TASK_FIELDS)"

text \<open>
  \<open>[field['key'] for field in available_field_definitions]\<close>: a definition without
  the entry raises \<open>KeyError\<close>.
\<close>

fun definition_keys :: "(string \<times> string) list list \<Rightarrow> exn + string list" where
  "definition_keys [] = Inr []"
| "definition_keys (field # rest) =
     (case map_of field ''key'' of
        None \<Rightarrow> Inl KeyError
      | Some key \<Rightarrow>
          (case definition_keys rest of Inl e \<Rightarrow> Inl e | Inr keys \<Rightarrow> Inr (key # keys)))"

text \<open>
  The available field names: the keys of the definitions the caller supplies, or the
  static ones when it supplies none (or an empty list).
\<close>

definition available_fields_of :: "(string \<times> string) list list option \<Rightarrow> exn + string list" where
  "available_fields_of available_field_definitions =
     (case available_field_definitions of
        None \<Rightarrow> Inr get_available_field_names
      | Some defs \<Rightarrow>
          (if defs = [] then Inr get_available_field_names else definition_keys defs))"

text \<open>
  \<open>filter_tasks_by_fields\<close>. \<open>set_order xs\<close> is \<open>list(set(xs))\<close>: the elements of
  \<open>xs\<close> once each, in the order in which the set happens to iterate. Both arguments
  are lists by their type, so the two \<open>isinstance\<close> tests pass. The decorator and the
  context manager log an exception and raise it again. \<open>task_to_dict\<close> cannot fail on a
  task of this type, so the handler inside the loop is never entered and the loop
  collects a row for every task.
\<close>

definition filter_tasks_by_fields ::
  "(string list \<Rightarrow> string list) \<Rightarrow> Task list \<Rightarrow> string list \<Rightarrow>
     (string \<times> string) list list option \<Rightarrow> exn + (string \<times> cell) list list" where
  "filter_tasks_by_fields set_order tasks selected available_field_definitions =
     (if tasks = [] then Inr []
      else if selected = [] then Inl ValidationError
      else
        (case available_fields_of available_field_definitions of
           Inl e \<Rightarrow> Inl e
         | Inr available_fields \<Rightarrow>
            (let invalid_fields = filter (\<lambda>field. field \<notin> set available_fields) selected
             in (case (if invalid_fields \<noteq> [] then
                         (let valid_fields =
                                filter (\<lambda>field. field \<in> set available_fields) selected
                          in if valid_fields = [] then Inl ValidationError else Inr valid_fields)
                       else Inr selected) of
                   Inl e \<Rightarrow> Inl e
                 | Inr selected1 \<Rightarrow>
                    (let missing_required =
                           filter (\<lambda>field. field \<notin> set selected1) get_required_field_names;
                         selected2 =
                           (if missing_required \<noteq> []
                            then set_order (selected1 @ missing_required)
                            else selected1);
                         filtered_tasks = map (\<lambda>task. task_to_dict task selected2) tasks
                     in if filtered_tasks = [] \<and> tasks \<noteq> [] then Inl TaskManagerError
                        else Inr filtered_tasks)))))"

text \<open>A task on which the model is run.\<close>

definition sample_task :: Task where
  "sample_task =
     \<lparr>task_id = ''1201'', name = ''Write report'', created_at = (739000, 0),
      modified_at = (739001, 0), completed = False, assignee = None, due_date = Some 739010,
      task_notes = ''draft'', custom_fields = [(''custom_7'', JStr ''high'')]\<rparr>"

section \<open>Verified properties\<close>

subsection \<open>Field selection\<close>

text \<open>
  The loop and the filter of \<open>validate_selected_fields\<close> in closed form: the required
  keys the input lacks, the later one first, followed by the input keys the catalog knows.
\<close>

lemma validate_selected_fields_closed:
  "validate_selected_fields fs =
     (if fs = [] then DEFAULT_SELECTED_FIELDS
      else filter (\<lambda>r. r \<notin> set fs) [''created_at'', ''name''] @
           filter (\<lambda>f. f \<in> set AVAILABLE_TASK_FIELDS) fs)"
  by (simp add: validate_selected_fields_def REQUIRED_FIELDS_def insert_required_def
      AVAILABLE_TASK_FIELDS_def)

text \<open>
  C2. For every list of field keys, the result of \<open>validate_selected_fields\<close> contains
  \<open>name\<close> and \<open>created_at\<close> and only keys of the catalog; on the empty list it is the
  default five-field selection; on a non-empty list it is the missing required keys, put
  at the front, followed by the input keys that the catalog knows, in their input order.
  (Values are immutable here, so "a fresh copy" is the same value.)
\<close>

theorem validate_selected_fields_spec:
  "''name'' \<in> set (validate_selected_fields fs) \<and>
   ''created_at'' \<in> set (validate_selected_fields fs) \<and>
   set (validate_selected_fields fs) \<subseteq> set AVAILABLE_TASK_FIELDS \<and>
   validate_selected_fields [] =
     [''name'', ''created_at'', ''assignee'', ''completed'', ''due_date''] \<and>
   (fs \<noteq> [] \<longrightarrow>
      validate_selected_fields fs =
        filter (\<lambda>r. r \<notin> set fs) [''created_at'', ''name''] @
        filter (\<lambda>f. f \<in> set AVAILABLE_TASK_FIELDS) fs)"
  apply (simp add: validate_selected_fields_closed)
  apply (auto simp add: DEFAULT_SELECTED_FIELDS_def AVAILABLE_TASK_FIELDS_def)
  done

theorem validate_selected_fields_spec_witness:
  "[''due_date'', ''bogus'', ''name'', ''notes''] \<noteq> [] \<and>
   validate_selected_fields [''due_date'', ''bogus'', ''name'', ''notes''] =
     [''created_at'', ''due_date'', ''name'', ''notes'']"
  using validate_selected_fields_spec [of "[''due_date'', ''bogus'', ''name'', ''notes'']"]
  by (simp add: AVAILABLE_TASK_FIELDS_def)

subsection \<open>Date range validation\<close>

text \<open>
  C3. \<open>validate_date_range\<close> returns \<open>True\<close> exactly when both arguments are plain
  dates with \<open>start \<le> end\<close>, neither after today, at most 365 days apart, and the start no
  older than 365 days; every other call raises \<open>DateValidationError\<close> (a datetime
  argument reaches it through the wrapping handler). For any today, the range from
  365 days ago to today is accepted, the range from 366 days ago is refused (by the span
  check, which comes first), and a range ending tomorrow is refused.
\<close>

theorem validate_date_range_spec:
  "(validate_date_range today s e = Inr True \<longleftrightarrow>
      (\<exists>a b. s = PyDate a \<and> e = PyDate b \<and> a \<le> b \<and> a \<le> today \<and> b \<le> today \<and>
             b - a \<le> 365 \<and> today - 365 \<le> a)) \<and>
   (validate_date_range today s e \<noteq> Inr True \<longrightarrow>
      (\<exists>rule. validate_date_range today s e = Inl (DateValidationError rule))) \<and>
   validate_date_range today (PyDate (today - 365)) (PyDate today) = Inr True \<and>
   validate_date_range today (PyDate (today - 366)) (PyDate today) =
     Inl (DateValidationError RangeTooLong) \<and>
   validate_date_range today (PyDate today) (PyDate (today + 1)) =
     Inl (DateValidationError EndInFuture)"
  apply (cases s; cases e)
  apply (auto simp add: validate_date_range_def validate_date_range_try_def
      MAX_DATE_RANGE_DAYS_def split: sum.splits exn.splits if_splits)
  done

theorem validate_date_range_spec_witness:
  "validate_date_range 739000 (PyDate 738700) (PyDate 738990) = Inr True \<and>
   validate_date_range 739000 (PyDatetime 738700 0) (PyDate 738990) \<noteq> Inr True \<and>
   validate_date_range 739000 (PyDatetime 738700 0) (PyDate 738990) =
     Inl (DateValidationError Wrapped)"
  using validate_date_range_spec [of 739000 "PyDate 738700" "PyDate 738990"]
    validate_date_range_spec [of 739000 "PyDatetime 738700 0" "PyDate 738990"]
  by (simp add: validate_date_range_def validate_date_range_try_def)

subsection \<open>Progress reporting\<close>

lemma update_progress_calls:
  "progress_calls (update_progress self progress) =
     progress_calls self @
       (if has_progress_callback self then [min (max progress 0) 100] else [])"
  by (simp add: update_progress_def)

lemma foldl_update_progress_range:
  "set (progress_calls (foldl update_progress self ps)) \<subseteq> set (progress_calls self) \<union> {0..100}"
proof (induction ps arbitrary: self)
  case Nil
  show ?case by simp
next
  case (Cons p ps)
  have "set (progress_calls (update_progress self p)) \<subseteq> set (progress_calls self) \<union> {0..100}"
    by (auto simp add: update_progress_calls)
  with Cons [of "update_progress self p"] show ?case
    by auto
qed

text \<open>
  C10. One call of \<open>_update_progress\<close> invokes the callback, when there is one, once
  and with the progress value clamped into 0..100 (and not at all otherwise); so after
  any sequence of progress updates, whatever the values, every argument the callback has
  received lies in 0..100.
\<close>

theorem update_progress_clamped:
  "progress_calls (update_progress self progress) =
     progress_calls self @
       (if has_progress_callback self then [min (max progress 0) 100] else []) \<and>
   (\<forall>v \<in> set (progress_calls (foldl update_progress (self\<lparr>progress_calls := []\<rparr>) ps)).
      0 \<le> v \<and> v \<le> 100)"
proof
  show "progress_calls (update_progress self progress) =
     progress_calls self @
       (if has_progress_callback self then [min (max progress 0) 100] else [])"
    by (rule update_progress_calls)
next
  have "set (progress_calls (foldl update_progress (self\<lparr>progress_calls := []\<rparr>) ps))
      \<subseteq> set (progress_calls (self\<lparr>progress_calls := []\<rparr>)) \<union> {0..100}"
    by (rule foldl_update_progress_range)
  then show "\<forall>v \<in> set (progress_calls (foldl update_progress (self\<lparr>progress_calls := []\<rparr>) ps)).
      0 \<le> v \<and> v \<le> 100"
    by auto
qed

theorem update_progress_clamped_witness:
  "progress_calls (foldl update_progress
      \<lparr>has_progress_callback = True, progress_calls = []\<rparr> [- 5, 50, 250]) = [0, 50, 100]"
  using update_progress_clamped
    [of "\<lparr>has_progress_callback = True, progress_calls = []\<rparr>" 0 "[- 5, 50, 250]"]
  by (simp add: update_progress_def)

subsection \<open>Effort estimation\<close>

text \<open>
  The rounding model on the textbook case: \<open>0.1 + 0.2\<close> is the double
  \<open>0.30000000000000004\<close>, not the double nearest to \<open>0.3\<close>.
\<close>

lemma double_sum_example:
  "fadd (to_double (1 / 10)) (to_double (2 / 10)) = Fin (5404319552844596 / 2 ^ 54) \<and>
   to_double (3 / 10) = Fin (5404319552844595 / 2 ^ 54)"
  by code_simp

text \<open>
  C6, as the spec states it, fails in its first part: for 1000 tasks and 5 fields the
  estimate is not the floor of one second.
\<close>

theorem estimate_processing_time_1000_not_floor:
  "estimate_processing_time 1000 5 \<noteq> Inr 1"
  by code_simp

text \<open>
  C6, amended. \<open>estimate_processing_time(1000, 5)\<close> is 15 (ten seconds of base time and
  five of formatting); the one-second floor is what ten tasks get;
  \<open>estimate_processing_time(1000000, 5)\<close> is clamped to 300; and
  \<open>get_memory_usage_estimate(0, 5)\<close> is the overhead floor, 10.
\<close>

theorem estimation_values:
  "estimate_processing_time 1000 5 = Inr 15 \<and>
   estimate_processing_time 10 5 = Inr 1 \<and>
   estimate_processing_time 1000000 5 = Inr 300 \<and>
   get_memory_usage_estimate 0 5 = Inr 10"
  by code_simp

subsection \<open>Rate limiting\<close>

lemma attempts_range: "[0..<MAX_RETRIES] = [0, 1, 2]"
  by (simp add: MAX_RETRIES_def upt_rec)

text \<open>
  C5, as the spec states it, fails: against a server that answers every attempt with
  429 and no \<open>Retry-After\<close> header, the sleeps are not 1, 2 and 4 seconds.
\<close>

theorem rate_limit_sleeps_not_1_2_4:
  "snd (make_request
         (\<lambda>attempt. Responded \<lparr>status_code = 429, retry_after = None, json_body = None\<rparr>)
         (\<lambda>text. None)) \<noteq> [1, 2, 4]"
  unfolding make_request_def attempts_range
  by (simp add: handle_rate_limit_def MAX_RETRIES_def RETRY_DELAY_def)

text \<open>
  C5, amended. When each of the three attempts receives a 429 response without a
  \<open>Retry-After\<close> header, the client sleeps 1 second after the first and 2 seconds after
  the second, and at the third attempt raises the rate-limit error without sleeping.
\<close>

theorem rate_limit_backoff:
  assumes "\<And>attempt. attempt < MAX_RETRIES \<Longrightarrow>
             \<exists>resp. server attempt = Responded resp \<and> status_code resp = 429 \<and>
                    retry_after resp = None"
  shows "make_request server py_float = (Inl AsanaRateLimitError, [1, 2])"
proof -
  from assms [of 0] obtain r0 where r0: "server 0 = Responded r0" "status_code r0 = 429"
    "retry_after r0 = None"
    by (auto simp add: MAX_RETRIES_def)
  from assms [of 1] obtain r1 where r1: "server 1 = Responded r1" "status_code r1 = 429"
    "retry_after r1 = None"
    by (auto simp add: MAX_RETRIES_def)
  from assms [of 2] obtain r2 where r2: "server 2 = Responded r2" "status_code r2 = 429"
    "retry_after r2 = None"
    by (auto simp add: MAX_RETRIES_def)
  have s2: "request_attempts server py_float [2] [1, 2] = (Inl AsanaRateLimitError, [1, 2])"
    using r2 by (simp add: handle_rate_limit_def MAX_RETRIES_def)
  have s1: "request_attempts server py_float [1, 2] [1] = (Inl AsanaRateLimitError, [1, 2])"
    using r1 s2 by (simp add: handle_rate_limit_def MAX_RETRIES_def RETRY_DELAY_def)
  have s0: "request_attempts server py_float [0, 1, 2] [] = (Inl AsanaRateLimitError, [1, 2])"
    using r0 s1 by (simp add: handle_rate_limit_def MAX_RETRIES_def RETRY_DELAY_def)
  show ?thesis
    unfolding make_request_def attempts_range by (rule s0)
qed

theorem rate_limit_backoff_witness:
  "make_request
     (\<lambda>attempt. Responded \<lparr>status_code = 429, retry_after = None, json_body = None\<rparr>)
     (\<lambda>text. None) = (Inl AsanaRateLimitError, [1, 2])"
  by (rule rate_limit_backoff) simp

subsection \<open>Encryption of the access token\<close>

lemma undotted_dotted: "undotted (dotted b) = Some b"
  by (induction b) auto

lemma has_surrogate_dotted: "\<not> has_surrogate (dotted b)"
proof (induction b)
  case Nil
  show ?case by simp
next
  case (Cons c cs)
  then show ?case
    by (cases cs) auto
qed

lemma ascii_no_surrogate:
  "list_all (\<lambda>c. of_char c < (128 :: nat)) s \<Longrightarrow> \<not> has_surrogate s"
  by (induction s rule: has_surrogate.induct) auto

lemma toy_library_laws: "library_laws toy_library"
  unfolding library_laws_def toy_library_def
  by (auto simp add: undotted_dotted has_surrogate_dotted ascii_no_surrogate)

lemma encrypt_nonempty:
  assumes "library_laws lib" and "s \<noteq> []" and "utf8_encode lib s = Some plain"
  shows "\<exists>t. encrypt_sensitive_data lib s n = (Inr t, Suc n) \<and> t \<noteq> [] \<and>
             utf8_encode lib t = Some (b64encode lib (fernet_encrypt lib n plain))"
proof -
  from assms(1) obtain t where
    t: "utf8_decode lib (b64encode lib (fernet_encrypt lib n plain)) = Some t"
    "utf8_encode lib t = Some (b64encode lib (fernet_encrypt lib n plain))"
    unfolding library_laws_def by blast
  from assms(1) t(1) have "t \<noteq> []"
    unfolding library_laws_def by auto
  with t assms(2,3) show ?thesis
    by (simp add: encrypt_sensitive_data_def)
qed

lemma decrypt_of_encrypted:
  assumes "library_laws lib" and "t \<noteq> []" and "utf8_encode lib s = Some plain"
    and "utf8_encode lib t = Some (b64encode lib (fernet_encrypt lib n plain))"
  shows "decrypt_sensitive_data lib t m = (Inr s, Suc m)"
proof -
  from assms(1,3) have
    "b64decode lib (b64encode lib (fernet_encrypt lib n plain)) = Some (fernet_encrypt lib n plain)"
    and "fernet_decrypt lib (fernet_encrypt lib n plain) = Some plain"
    and "utf8_decode lib plain = Some s"
    unfolding library_laws_def by blast+
  with assms(2,4) show ?thesis
    by (simp add: decrypt_sensitive_data_def)
qed

text \<open>
  C9, as the spec states it, fails: a text with a lone surrogate is a non-empty string,
  and encrypting it raises \<open>ValueError\<close>, although the library functions behave as
  documented.
\<close>

theorem encrypt_surrogate_raises:
  "library_laws toy_library \<and> lone_surrogate \<noteq> [] \<and>
   encrypt_sensitive_data toy_library lone_surrogate 0 = (Inl ValueError, 0)"
  by (simp add: toy_library_laws)
    (simp add: lone_surrogate_def encrypt_sensitive_data_def toy_library_def)

text \<open>
  C9, amended. With library functions that behave as documented, encrypting a non-empty
  string that UTF-8 can encode succeeds, and decrypting the result gives the string
  back, at the cost of one call to the Fernet primitive each. A non-empty string that
  cannot be encoded (one with a lone surrogate) makes either function raise
  \<open>ValueError\<close> before the primitive is called. On the empty string both functions
  return the empty string and leave the count of calls unchanged.
\<close>

theorem encrypt_decrypt_roundtrip:
  "(library_laws lib \<and> s \<noteq> [] \<and> utf8_encode lib s \<noteq> None \<longrightarrow>
      (\<exists>t. encrypt_sensitive_data lib s n = (Inr t, Suc n) \<and>
           decrypt_sensitive_data lib t (Suc n) = (Inr s, Suc (Suc n)))) \<and>
   (s \<noteq> [] \<and> utf8_encode lib s = None \<longrightarrow>
      encrypt_sensitive_data lib s n = (Inl ValueError, n) \<and>
      decrypt_sensitive_data lib s n = (Inl ValueError, n)) \<and>
   encrypt_sensitive_data lib [] n = (Inr [], n) \<and>
   decrypt_sensitive_data lib [] n = (Inr [], n)"
proof (intro conjI impI)
  assume a: "library_laws lib \<and> s \<noteq> [] \<and> utf8_encode lib s \<noteq> None"
  then obtain plain where plain: "utf8_encode lib s = Some plain"
    by auto
  with a obtain t where t: "encrypt_sensitive_data lib s n = (Inr t, Suc n)" "t \<noteq> []"
    "utf8_encode lib t = Some (b64encode lib (fernet_encrypt lib n plain))"
    using encrypt_nonempty [of lib s plain n] by blast
  with a plain have "decrypt_sensitive_data lib t (Suc n) = (Inr s, Suc (Suc n))"
    using decrypt_of_encrypted [of lib t s plain n "Suc n"] by blast
  with t(1) show "\<exists>t. encrypt_sensitive_data lib s n = (Inr t, Suc n) \<and>
           decrypt_sensitive_data lib t (Suc n) = (Inr s, Suc (Suc n))"
    by blast
next
  assume "s \<noteq> [] \<and> utf8_encode lib s = None"
  then show "encrypt_sensitive_data lib s n = (Inl ValueError, n)"
    by (simp add: encrypt_sensitive_data_def)
next
  assume "s \<noteq> [] \<and> utf8_encode lib s = None"
  then show "decrypt_sensitive_data lib s n = (Inl ValueError, n)"
    by (simp add: decrypt_sensitive_data_def)
next
  show "encrypt_sensitive_data lib [] n = (Inr [], n)"
    by (simp add: encrypt_sensitive_data_def)
next
  show "decrypt_sensitive_data lib [] n = (Inr [], n)"
    by (simp add: decrypt_sensitive_data_def)
qed

theorem encrypt_decrypt_roundtrip_witness:
  "library_laws toy_library \<and> ''secret'' \<noteq> [] \<and>
   utf8_encode toy_library ''secret'' \<noteq> None \<and>
   encrypt_sensitive_data toy_library ''secret'' 0 = (Inr ''.g.s.e.c.r.e.t'', 1) \<and>
   decrypt_sensitive_data toy_library ''.g.s.e.c.r.e.t'' 1 = (Inr ''secret'', 2) \<and>
   utf8_encode toy_library lone_surrogate = None \<and>
   decrypt_sensitive_data toy_library lone_surrogate 0 = (Inl ValueError, 0)"
  using encrypt_decrypt_roundtrip [of toy_library "''secret''" 0]
    encrypt_decrypt_roundtrip [of toy_library lone_surrogate 0] toy_library_laws
  by (simp add: encrypt_sensitive_data_def decrypt_sensitive_data_def toy_library_def
      lone_surrogate_def)

subsection \<open>Updating the entries of a dict\<close>

lemma map_of_obj_update: "map_of (obj_update k v kvs) k = Some v"
  by (induction kvs) auto

lemma map_of_obj_update_other: "k' \<noteq> k \<Longrightarrow> map_of (obj_update k v kvs) k' = map_of kvs k'"
  by (induction kvs) auto



subsection \<open>Saving and loading a configuration\<close>












subsection \<open>Default configuration\<close>

text \<open>
  C7, as the spec states it, fails: in an environment without a Documents directory,
  the default configuration does not name the home directory.
\<close>

theorem default_config_no_home_fallback:
  "\<not> path_exists sample_env (documents_path sample_env) \<and>
   output_directory_of (get_default_config sample_env) \<noteq> Inr (JStr (home sample_env))"
  by (simp add: sample_env_def documents_path_def output_directory_of_def get_default_config_def)

lemma default_dict_valid:
  assumes "library_laws lib"
    and "access_token (asana c) = JStr []" and "is_str (selected_project_id (asana c))"
    and "is_str (selected_project_name (asana c))"
    and "default_date_range (export c) = JInt 30" and "is_list (selected_fields (export c))"
    and "is_str (output_directory (export c))" and "window_size (ui c) = JStr ''800x600''"
  shows "validate_config lib (to_dict c) = Inr True"
proof -
  from assms(1) have "int_parses lib ''800''" and "int_parses lib ''600''"
    unfolding library_laws_def by simp_all
  then have "window_size_ok lib ''800x600''"
    by (simp add: window_size_ok_def)
  with assms(2-) show ?thesis
    by (simp add: validate_config_def to_dict_def required_sections_def py_getitem_def
        validate_asana_def validate_export_def validate_ui_def get_is_str_def)
qed

lemma save_default_dict:
  assumes "validate_config lib (to_dict c) = Inr True" and "access_token (asana c) = JStr []"
  shows "save_config lib (to_dict c) st =
           (if writable st \<and> json_encodable lib (to_dict c)
            then (Inr (), st\<lparr>config_file := Some (Doc (to_dict c))\<rparr>)
            else (Inl IOError, st))"
proof -
  have "access_token_of (to_dict c) = Inr (JStr [])"
    using assms(2) by (simp add: access_token_of_def to_dict_def)
  with assms(1) show ?thesis
    by (simp add: save_config_def)
qed

text \<open>
  The default configuration is text that can be written: its keys and constants are
  ASCII, and the directory is encodable when the paths of the environment are.
\<close>

lemma default_dict_encodable:
  assumes "library_laws lib"
    and "access_token (asana c) = JStr []" and "selected_project_id (asana c) = JStr []"
    and "selected_project_name (asana c) = JStr []"
    and "default_date_range (export c) = JInt 30"
    and "selected_fields (export c) = JList (map JStr DEFAULT_SELECTED_FIELDS)"
    and "output_directory (export c) = JStr directory" and "utf8_encode lib directory \<noteq> None"
    and "window_size (ui c) = JStr ''800x600''" and "last_export_path (ui c) = JStr []"
  shows "json_encodable lib (to_dict c)"
proof -
  have ascii: "utf8_encode lib s \<noteq> None" if "list_all (\<lambda>c. of_char c < (128 :: nat)) s" for s
    using assms(1) that unfolding library_laws_def by blast
  have keys: "utf8_encode lib ''asana'' \<noteq> None" "utf8_encode lib ''export'' \<noteq> None"
    "utf8_encode lib ''ui'' \<noteq> None" "utf8_encode lib ''access_token'' \<noteq> None"
    "utf8_encode lib ''selected_project_id'' \<noteq> None"
    "utf8_encode lib ''selected_project_name'' \<noteq> None"
    "utf8_encode lib ''default_date_range'' \<noteq> None"
    "utf8_encode lib ''selected_fields'' \<noteq> None"
    "utf8_encode lib ''output_directory'' \<noteq> None"
    "utf8_encode lib ''window_size'' \<noteq> None" "utf8_encode lib ''last_export_path'' \<noteq> None"
    by (rule ascii, simp)+
  have vals: "utf8_encode lib [] \<noteq> None" "utf8_encode lib ''800x600'' \<noteq> None"
    "utf8_encode lib ''name'' \<noteq> None" "utf8_encode lib ''created_at'' \<noteq> None"
    "utf8_encode lib ''assignee'' \<noteq> None" "utf8_encode lib ''completed'' \<noteq> None"
    "utf8_encode lib ''due_date'' \<noteq> None"
    by (rule ascii, simp)+
  from assms(2-) keys vals show ?thesis
    by (simp add: to_dict_def DEFAULT_SELECTED_FIELDS_def)
qed

text \<open>What \<open>initialize_default_config\<close> does, given sound library functions.\<close>

lemma initialize_default_config_result:
  assumes "library_laws lib"
  shows "\<exists>c. output_directory (export c) =
               JStr (if path_exists e (documents_path e) then documents_path e else home e) \<and>
             initialize_default_config lib e st =
               (if writable st \<and>
                   utf8_encode lib
                     (if path_exists e (documents_path e) then documents_path e else home e) \<noteq>
                   None
                then (Inr c, st\<lparr>config_file := Some (Doc (to_dict c))\<rparr>)
                else (Inl RuntimeError, st))"
proof -
  define directory where
    "directory = (if path_exists e (documents_path e) then documents_path e else home e)"
  define c where "c = (new_AppConfig e)\<lparr>export := (export (new_AppConfig e))
     \<lparr>output_directory := JStr directory,
      selected_fields := JList (map JStr DEFAULT_SELECTED_FIELDS)\<rparr>\<rparr>"
  have valid: "validate_config lib (to_dict c) = Inr True"
    by (rule default_dict_valid [OF assms])
      (simp_all add: c_def new_AppConfig_def ExportConfig_post_init_def)
  have token: "access_token (asana c) = JStr []"
    by (simp add: c_def new_AppConfig_def)
  have out: "output_directory (export c) = JStr directory"
    by (simp add: c_def)
  have "json_encodable lib (to_dict c)" if "utf8_encode lib directory \<noteq> None"
    by (rule default_dict_encodable [OF assms _ _ _ _ _ out that])
      (simp_all add: c_def new_AppConfig_def ExportConfig_post_init_def)
  moreover have "utf8_encode lib directory \<noteq> None" if "json_encodable lib (to_dict c)"
    using that out by (simp add: to_dict_def)
  ultimately have enc: "json_encodable lib (to_dict c) = (utf8_encode lib directory \<noteq> None)"
    by blast
  have "initialize_default_config lib e st =
      (case save_config lib (to_dict c) st of
         (Inl err, st') \<Rightarrow> (Inl RuntimeError, st')
       | (Inr u, st') \<Rightarrow> (Inr c, st'))"
    unfolding initialize_default_config_def c_def directory_def Let_def by (rule refl)
  then have "initialize_default_config lib e st =
      (if writable st \<and> utf8_encode lib directory \<noteq> None
       then (Inr c, st\<lparr>config_file := Some (Doc (to_dict c))\<rparr>)
       else (Inl RuntimeError, st))"
    by (simp add: save_default_dict [OF valid token] enc)
  with out show ?thesis
    unfolding directory_def by blast
qed

text \<open>
  C7, amended. The default configuration of \<open>get_default_config\<close>, like the default
  \<open>AppConfig\<close>, names the Documents directory under the home directory whether or not
  that directory exists. The fall-back to the home directory belongs to
  \<open>initialize_default_config\<close>, whose result names Documents when it exists and the home
  directory otherwise (it succeeds when the file can be written and the directory it
  names is text that can be encoded).
\<close>

theorem default_output_directory:
  "output_directory_of (get_default_config e) = Inr (JStr (documents_path e)) \<and>
   output_directory (export (new_AppConfig e)) = JStr (documents_path e) \<and>
   (library_laws lib \<and> writable st \<and>
    utf8_encode lib (if path_exists e (documents_path e) then documents_path e else home e) \<noteq>
      None \<longrightarrow>
      (\<exists>c st'. initialize_default_config lib e st = (Inr c, st') \<and>
         output_directory (export c) =
           JStr (if path_exists e (documents_path e) then documents_path e else home e)))"
proof (intro conjI impI)
  show "output_directory_of (get_default_config e) = Inr (JStr (documents_path e))"
    by (simp add: output_directory_of_def get_default_config_def)
next
  show "output_directory (export (new_AppConfig e)) = JStr (documents_path e)"
    by (simp add: new_AppConfig_def ExportConfig_post_init_def)
next
  assume a: "library_laws lib \<and> writable st \<and>
    utf8_encode lib (if path_exists e (documents_path e) then documents_path e else home e) \<noteq>
      None"
  then obtain c where "output_directory (export c) =
      JStr (if path_exists e (documents_path e) then documents_path e else home e)"
    and "initialize_default_config lib e st =
      (if writable st \<and>
          utf8_encode lib
            (if path_exists e (documents_path e) then documents_path e else home e) \<noteq> None
       then (Inr c, st\<lparr>config_file := Some (Doc (to_dict c))\<rparr>)
       else (Inl RuntimeError, st))"
    using initialize_default_config_result [of lib e st] by blast
  with a show "\<exists>c st'. initialize_default_config lib e st = (Inr c, st') \<and>
         output_directory (export c) =
           JStr (if path_exists e (documents_path e) then documents_path e else home e)"
    by auto
qed

lemma sample_home_encodable: "utf8_encode toy_library ''/home/u'' \<noteq> None"
  by (simp add: toy_library_def)

theorem default_output_directory_witness:
  "library_laws toy_library \<and>
   writable \<lparr>config_file = None, writable = True, fernet_calls = 0\<rparr> \<and>
   utf8_encode toy_library ''/home/u'' \<noteq> None \<and>
   output_directory_of (get_default_config sample_env) = Inr (JStr ''/home/u/Documents'') \<and>
   map_sum (\<lambda>err. err) (\<lambda>c. output_directory (export c))
     (fst (initialize_default_config toy_library sample_env
            \<lparr>config_file = None, writable = True, fernet_calls = 0\<rparr>)) =
     Inr (JStr ''/home/u'')"
  using default_output_directory [of sample_env toy_library
      "\<lparr>config_file = None, writable = True, fernet_calls = 0\<rparr>"] toy_library_laws
    sample_home_encodable
  by (auto simp add: sample_env_def documents_path_def)

subsection \<open>Application setup\<close>

lemma setup_unwritable_first_run:
  "setup_application toy_library sample_env [] [] None
      \<lparr>config_file = None, writable = False, fernet_calls = 0\<rparr> =
     (Inl RuntimeError, \<lparr>config_file = None, writable = False, fernet_calls = 0\<rparr>)"
proof -
  have "initialize_default_config toy_library sample_env
          \<lparr>config_file = None, writable = False, fernet_calls = 0\<rparr> =
        (Inl RuntimeError, \<lparr>config_file = None, writable = False, fernet_calls = 0\<rparr>)"
    using initialize_default_config_result [OF toy_library_laws, of sample_env
        "\<lparr>config_file = None, writable = False, fernet_calls = 0\<rparr>"]
    by auto
  then show ?thesis
    by (simp add: setup_application_def setup_try_def is_first_run_def config_exists_def)
qed

text \<open>
  C8, as the spec states it, fails: on a first run with a configuration file that cannot
  be written, the initialization fails, the handler's fall-back fails in the same way,
  and \<open>setup_application\<close> raises \<open>RuntimeError\<close> to its caller.
\<close>

theorem setup_application_raises:
  "fst (setup_application toy_library sample_env [] [] None
         \<lparr>config_file = None, writable = False, fernet_calls = 0\<rparr>) = Inl RuntimeError"
  by (simp add: setup_unwritable_first_run)

lemma initialize_default_config_error:
  "fst (initialize_default_config lib e st) = Inl err \<Longrightarrow> err = RuntimeError"
  by (auto simp add: initialize_default_config_def Let_def split: prod.splits sum.splits)

lemma save_config_writable: "writable (snd (save_config lib config st)) = writable st"
  by (auto simp add: save_config_def split: sum.splits prod.splits if_splits)

lemma load_config_writable: "writable (snd (load_config lib e st)) = writable st"
  by (auto simp add: load_config_def split: option.splits file_content.splits prod.splits
      sum.splits)

lemma initialize_with_user_input_writable:
  "writable (snd (initialize_with_user_input lib e token directory selection st)) = writable st"
proof -
  have "writable (snd (case save_config lib config st of
           (Inl err, st') \<Rightarrow> (Inl RuntimeError, st')
         | (Inr u, st') \<Rightarrow> (Inr c, st'))) = writable st" for config and c :: AppConfig
    using save_config_writable [of lib config st]
    by (auto split: prod.splits sum.splits)
  then show ?thesis
    unfolding initialize_with_user_input_def Let_def by blast
qed

lemma initialize_default_config_writable:
  "writable (snd (initialize_default_config lib e st)) = writable st"
proof -
  have "writable (snd (case save_config lib config st of
           (Inl err, st') \<Rightarrow> (Inl RuntimeError, st')
         | (Inr u, st') \<Rightarrow> (Inr c, st'))) = writable st" for config and c :: AppConfig
    using save_config_writable [of lib config st]
    by (auto split: prod.splits sum.splits)
  then show ?thesis
    unfolding initialize_default_config_def Let_def by blast
qed

lemma setup_try_writable:
  "writable (snd (setup_try lib e token directory selection st)) = writable st"
  using load_config_writable [of lib e st]
    initialize_with_user_input_writable [of lib e token directory selection st]
    initialize_default_config_writable [of lib e st]
  by (auto simp add: setup_try_def split: prod.splits sum.splits)

text \<open>
  C8, amended. Every exception raised inside the \<open>try\<close> block of \<open>setup_application\<close>
  (by first-run detection, by either initialization, by loading or rebuilding an
  existing configuration) is caught, and the call continues as
  \<open>initialize_default_config\<close>; a result of the block is returned as it is. The only
  exception the caller can see is the \<open>RuntimeError\<close> of that fall-back, raised when the
  default configuration cannot be saved; with sound library functions, a writable
  configuration file and a default directory that is encodable text, the call returns a
  configuration.
\<close>

theorem setup_application_fallback:
  "(\<forall>err st'. setup_try lib e token directory selection st = (Inl err, st') \<longrightarrow>
      setup_application lib e token directory selection st =
        initialize_default_config lib e st') \<and>
   (\<forall>config st'. setup_try lib e token directory selection st = (Inr config, st') \<longrightarrow>
      setup_application lib e token directory selection st = (Inr config, st')) \<and>
   (\<forall>err. fst (setup_application lib e token directory selection st) = Inl err \<longrightarrow>
      err = RuntimeError) \<and>
   (library_laws lib \<and> writable st \<and>
    utf8_encode lib (if path_exists e (documents_path e) then documents_path e else home e) \<noteq>
      None \<longrightarrow>
      (\<exists>config. fst (setup_application lib e token directory selection st) = Inr config))"
proof (intro conjI allI impI)
  fix err st'
  assume "setup_try lib e token directory selection st = (Inl err, st')"
  then show "setup_application lib e token directory selection st =
      initialize_default_config lib e st'"
    by (simp add: setup_application_def)
next
  fix config st'
  assume "setup_try lib e token directory selection st = (Inr config, st')"
  then show "setup_application lib e token directory selection st = (Inr config, st')"
    by (simp add: setup_application_def)
next
  fix err
  assume "fst (setup_application lib e token directory selection st) = Inl err"
  then show "err = RuntimeError"
    by (auto simp add: setup_application_def split: prod.splits sum.splits
        dest: initialize_default_config_error)
next
  assume a: "library_laws lib \<and> writable st \<and>
    utf8_encode lib (if path_exists e (documents_path e) then documents_path e else home e) \<noteq>
      None"
  obtain r st1 where body: "setup_try lib e token directory selection st = (r, st1)"
    by (cases "setup_try lib e token directory selection st")
  have w1: "writable st1"
    using setup_try_writable [of lib e token directory selection st] a body by simp
  show "\<exists>config. fst (setup_application lib e token directory selection st) = Inr config"
  proof (cases r)
    case (Inl err)
    from a obtain c where "initialize_default_config lib e st1 =
        (if writable st1 \<and>
            utf8_encode lib
              (if path_exists e (documents_path e) then documents_path e else home e) \<noteq> None
         then (Inr c, st1\<lparr>config_file := Some (Doc (to_dict c))\<rparr>)
         else (Inl RuntimeError, st1))"
      using initialize_default_config_result [of lib e st1] by blast
    with a w1 Inl body show ?thesis
      by (simp add: setup_application_def)
  next
    case (Inr config)
    with body show ?thesis
      by (simp add: setup_application_def)
  qed
qed

theorem setup_application_fallback_witness:
  "setup_try toy_library sample_env [] [] None
      \<lparr>config_file = Some Corrupt, writable = True, fernet_calls = 0\<rparr> =
     (Inl ValueError, \<lparr>config_file = Some Corrupt, writable = True, fernet_calls = 0\<rparr>) \<and>
   library_laws toy_library \<and>
   writable \<lparr>config_file = Some Corrupt, writable = True, fernet_calls = 0\<rparr> \<and>
   utf8_encode toy_library ''/home/u'' \<noteq> None \<and>
   map_sum (\<lambda>err. err) (\<lambda>c. output_directory (export c))
     (fst (setup_application toy_library sample_env [] [] None
            \<lparr>config_file = Some Corrupt, writable = True, fernet_calls = 0\<rparr>)) =
     Inr (JStr ''/home/u'') \<and>
   fst (setup_application toy_library sample_env [] [] None
         \<lparr>config_file = None, writable = False, fernet_calls = 0\<rparr>) = Inl RuntimeError"
proof -
  let ?st = "\<lparr>config_file = Some Corrupt, writable = True, fernet_calls = 0\<rparr>"
  have body: "setup_try toy_library sample_env [] [] None ?st = (Inl ValueError, ?st)"
    by (simp add: setup_try_def is_first_run_def config_exists_def load_config_def)
  from setup_application_fallback [of toy_library sample_env "[]" "[]" None ?st] body
  have "setup_application toy_library sample_env [] [] None ?st =
      initialize_default_config toy_library sample_env ?st"
    by blast
  moreover obtain c where "output_directory (export c) = JStr ''/home/u''"
    and "initialize_default_config toy_library sample_env ?st =
      (Inr c, ?st\<lparr>config_file := Some (Doc (to_dict c))\<rparr>)"
    using initialize_default_config_result [OF toy_library_laws, of sample_env ?st]
      sample_home_encodable
    by (auto simp add: sample_env_def documents_path_def)
  ultimately show ?thesis
    using body toy_library_laws sample_home_encodable
    by (simp add: setup_unwritable_first_run)
qed

subsection \<open>Field filtering\<close>

lemma custom_fields_keep_keys:
  "map_of d k \<noteq> None \<Longrightarrow>
   map_of (foldl (\<lambda>d (key, v). obj_update key (CCustom v) d) d cfs) k \<noteq> None"
proof (induction cfs arbitrary: d)
  case Nil
  then show ?case by simp
next
  case (Cons cf cfs)
  obtain key v where cf: "cf = (key, v)" by (cases cf)
  have "map_of (obj_update key (CCustom v) d) k \<noteq> None"
    using Cons.prems by (cases "k = key") (simp_all add: map_of_obj_update map_of_obj_update_other)
  from Cons.IH [OF this] cf show ?case by simp
qed

lemma base_data_has_name: "map_of (base_data task) ''name'' \<noteq> None"
  unfolding base_data_def by (rule custom_fields_keep_keys) simp

text \<open>The entries of a row built from a selection: those of the selected keys.\<close>

lemma select_entries:
  "map_of (foldl (\<lambda>row key. (case map_of base key of None \<Rightarrow> row
                              | Some v \<Rightarrow> obj_update key v row)) row selected) k =
     (if k \<in> set selected \<and> map_of base k \<noteq> None then map_of base k else map_of row k)"
proof (induction selected arbitrary: row)
  case Nil
  show ?case by simp
next
  case (Cons key selected)
  show ?case
    apply (simp add: Cons.IH)
    apply (auto simp add: map_of_obj_update map_of_obj_update_other split: option.splits)
    apply (metis map_of_obj_update_other option.distinct(1))
    done
qed

lemma task_to_dict_entry:
  "k \<in> set selected \<Longrightarrow> map_of (task_to_dict task selected) k = map_of (base_data task) k"
  by (cases "map_of (base_data task) k") (auto simp add: task_to_dict_def select_entries)

text \<open>
  C4. Given a non-empty list of tasks and a non-empty selection that omits \<open>name\<close> and
  holds at least one available field, \<open>filter_tasks_by_fields\<close> returns one row for each
  task, and every row has an entry for \<open>name\<close> (the one \<open>Task.to_dict\<close> gives the task).
  This holds for every task of the model's type, valid or not, for the static field list
  and for any field definitions the caller supplies, and for whatever order the set of
  field names iterates in.
\<close>

theorem filter_tasks_keeps_name:
  assumes "\<And>xs. set (set_order xs) = set xs"
    and "tasks \<noteq> []" and "selected \<noteq> []" and "''name'' \<notin> set selected"
    and "available_fields_of definitions = Inr available"
    and "\<exists>field \<in> set selected. field \<in> set available"
  shows "\<exists>rows. filter_tasks_by_fields set_order tasks selected definitions = Inr rows \<and>
           length rows = length tasks \<and>
           (\<forall>i < length tasks.
              map_of (rows ! i) ''name'' = map_of (base_data (tasks ! i)) ''name'' \<and>
              map_of (rows ! i) ''name'' \<noteq> None)"
proof -
  define selected1 where "selected1 =
    (if filter (\<lambda>field. field \<notin> set available) selected \<noteq> []
     then filter (\<lambda>field. field \<in> set available) selected else selected)"
  define missing where "missing =
    filter (\<lambda>field. field \<notin> set selected1) get_required_field_names"
  define selected2 where "selected2 =
    (if missing \<noteq> [] then set_order (selected1 @ missing) else selected1)"
  have s1: "selected1 \<noteq> []" and no_name: "''name'' \<notin> set selected1"
    using assms(3,4,6) by (auto simp add: selected1_def filter_empty_conv)
  have "''name'' \<in> set get_required_field_names"
    by (simp add: get_required_field_names_def DEFAULT_TASK_FIELDS_def)
  with no_name have "''name'' \<in> set missing"
    by (simp add: missing_def)
  then have name2: "''name'' \<in> set selected2"
    using assms(1) by (auto simp add: selected2_def)
  have run: "filter_tasks_by_fields set_order tasks selected definitions =
      Inr (map (\<lambda>task. task_to_dict task selected2) tasks)"
    using assms(2,3,5) s1
    unfolding filter_tasks_by_fields_def Let_def selected2_def missing_def selected1_def
    by (simp split: if_splits)
  have "map_of (task_to_dict task selected2) ''name'' = map_of (base_data task) ''name''" for task
    using name2 by (rule task_to_dict_entry)
  with run show ?thesis
    using base_data_has_name by auto
qed

theorem filter_tasks_keeps_name_witness:
  "filter_tasks_by_fields remdups [sample_task] [''due_date'', ''bogus''] None =
     Inr [[(''due_date'', CIsoDate 739010), (''id'', CStr ''1201''),
           (''name'', CStr ''Write report''), (''created_at'', CIsoDatetime (739000, 0))]]"
proof -
  have "available_fields_of None = Inr get_available_field_names"
    by (simp add: available_fields_of_def)
  from filter_tasks_keeps_name [of remdups "[sample_task]" "[''due_date'', ''bogus'']"
      None get_available_field_names, OF set_remdups _ _ _ this]
  show ?thesis
    by (simp add: filter_tasks_by_fields_def available_fields_of_def
        get_available_field_names_def get_required_field_names_def DEFAULT_TASK_FIELDS_def
        task_to_dict_def base_data_def sample_task_def)
qed

end
